theory Spec2Isabelle
  imports Complex_Main "HOL-Library.Sublist" "HOL-Library.Log_Nat"
begin

section \<open>The tables of server.js\<close>

text \<open>
  The embedding follows \<^verbatim>\<open>createTables\<close>: one record per table row, one list of rows
  per table, in insertion order. Left out are the columns that carry no constraint and
  that no modelled handler reads or compares: the timestamps other than
  \<^verbatim>\<open>resolved_at\<close>, and supplier, cost_price, description, image_url, last_restocked,
  shelf_location, transaction_id. The INTEGER columns hold an \<^typ>\<open>int\<close>; prices are the
  mathematical value of the JavaScript number, a \<^typ>\<open>rat\<close>.
\<close>

record product =
  prod_id :: int
  prod_name :: string
  prod_category :: string
  prod_sell_price :: rat
  prod_sku :: "string option"

record inventory_row =
  inv_product_id :: int
  inv_quantity :: int
  inv_reorder_level :: int
  inv_max_stock_level :: "int option"
  inv_location :: "string option"

record sale =
  sale_id :: int
  sale_product_id :: int
  sale_quantity_sold :: int
  sale_unit_price :: rat
  sale_total_amount :: rat
  sale_cashier_name :: "string option"
  sale_payment_method :: string

datatype movement_type = MvSale | MvRestock | MvAdjustment | MvReturn | MvDamage

record stock_movement =
  mv_id :: int
  mv_product_id :: int
  mv_type :: movement_type
  mv_quantity_change :: int
  mv_previous_quantity :: int
  mv_new_quantity :: int
  mv_reason :: string
  mv_user_id :: int

datatype alert_type = LowStock | OutOfStock | Overstock | PriceChange

datatype alert_status = Active | Resolved | Dismissed

datatype alert_priority = Low | Medium | High | Critical

record alert =
  alert_id :: int
  alert_product_id :: int
  alert_kind :: alert_type
  alert_message :: string
  alert_status :: alert_status
  alert_priority :: alert_priority
  alert_resolved_at :: "nat option"
  alert_resolved_by :: "string option"

text \<open>
  The database: the five tables and, for the AUTOINCREMENT keys, the largest rowid
  handed out so far in each table that the handlers insert into (SQLite keeps it in
  \<^verbatim>\<open>sqlite_sequence\<close>, an ordinary table that a ROLLBACK restores too).
\<close>

record db =
  products :: "product list"
  inventory :: "inventory_row list"
  sales :: "sale list"
  alerts :: "alert list"
  stock_movements :: "stock_movement list"
  seq_sales :: int
  seq_alerts :: int
  seq_movements :: int

text \<open>
  Every statement a handler sends can fail (\<^verbatim>\<open>err\<close> in its callback). Which ones do
  is an input of the model: a predicate on the statements.
\<close>

datatype stmt =
    SelectInventory | InsertSale | UpdateInventory | InsertMovement
  | SelectAlert | SelectProduct | InsertAlert | UpdateProduct | UpdateAlert

type_synonym faults = "stmt \<Rightarrow> bool"

definition no_faults :: faults where
  "no_faults = (\<lambda>_. False)"

text \<open>The HTTP responses of the modelled handlers: status code and JSON body.\<close>

datatype response =
    SaleCreated int int bool
    \<comment> \<open>201: id, newQuantity, lowStockAlert\<close>
  | Insufficient int int
    \<comment> \<open>400 'Insufficient inventory': available, requested\<close>
  | Error400 string
  | Error404 string
  | Error500 string
  | Ok200 string

section \<open>Helpers: rowids, JavaScript numbers, formatting, rounding\<close>

definition fresh_id :: "int \<Rightarrow> int list \<Rightarrow> int" where
  "fresh_id sq ids = fold max ids sq + 1"

text \<open>
  The double nearest to an integer, the even significand on a tie (IEEE 754 binary64,
  round to nearest even). It is what \<^verbatim>\<open>JSON.parse\<close> makes of an integer literal, what
  node-sqlite3 hands over for a 64-bit INTEGER value, and, applied to the exact
  difference, what \<^verbatim>\<open>-\<close> returns on two integer-valued doubles. Up to \<open>2 ^ 53\<close> in
  magnitude every integer is a double; beyond, the significand keeps 53 bits. The model
  has no Infinity: magnitudes from \<open>2 ^ 1024\<close> on are outside it.
\<close>

definition to_double :: "int \<Rightarrow> int" where
  "to_double n =
     (if \<bar>n\<bar> \<le> 2 ^ 53 then n
      else let m = 2 ^ nat (bitlen \<bar>n\<bar> - 53);
               q = \<bar>n\<bar> div m;
               r = \<bar>n\<bar> mod m;
               q' = (if m < 2 * r \<or> (2 * r = m \<and> odd q) then q + 1 else q)
           in sgn n * (q' * m))"

definition digit_char :: "nat \<Rightarrow> char" where
  "digit_char d = ''0123456789'' ! d"

fun string_of_nat :: "nat \<Rightarrow> string" where
  "string_of_nat n =
     (if n < 10 then [digit_char n] else string_of_nat (n div 10) @ [digit_char (n mod 10)])"

text \<open>What a template literal prints for an integer-valued number.\<close>

definition string_of_int :: "int \<Rightarrow> string" where
  "string_of_int i = (if i < 0 then CHR ''-'' # string_of_nat (nat (- i)) else string_of_nat (nat i))"

text \<open>
  \<^verbatim>\<open>x.toFixed(2)\<close>, read back as a number: the integer \<open>n\<close> with \<open>n / 100\<close> nearest to
  \<open>x\<close>, the larger \<open>n\<close> on a tie, after \<open>x\<close> has been made non-negative and the sign put
  back (ECMAScript, Number.prototype.toFixed).
\<close>

definition toFixed2 :: "rat \<Rightarrow> rat" where
  "toFixed2 x =
     (if x < 0 then - (of_int \<lfloor>100 * (- x) + 1 / 2\<rfloor> / 100)
      else of_int \<lfloor>100 * x + 1 / 2\<rfloor> / 100)"

text \<open>
  \<^verbatim>\<open>parseFloat((quantity_sold * unit_price).toFixed(2))\<close>. The product and the parsed
  string are each rounded to a double; that rounding of a rational, \<open>rnd\<close>, is a parameter
  of the model.
\<close>

definition total_amount :: "(rat \<Rightarrow> rat) \<Rightarrow> int \<Rightarrow> rat \<Rightarrow> rat" where
  "total_amount rnd qs up = rnd (toFixed2 (rnd (of_int qs * up)))"

section \<open>Statements\<close>

text \<open>\<^verbatim>\<open>SELECT quantity, reorder_level FROM inventory WHERE product_id = ?\<close> with \<^verbatim>\<open>db.get\<close>: the first row.\<close>

definition select_inventory :: "db \<Rightarrow> int \<Rightarrow> inventory_row option" where
  "select_inventory s pid = find (\<lambda>r. inv_product_id r = pid) (inventory s)"

definition insert_sale ::
  "faults \<Rightarrow> db \<Rightarrow> int \<Rightarrow> int \<Rightarrow> rat \<Rightarrow> rat \<Rightarrow> string option \<Rightarrow> string \<Rightarrow> (int \<times> db) option" where
  "insert_sale f s pid qs up amount cashier pm =
     (if f InsertSale then None
      else let i = fresh_id (seq_sales s) (map sale_id (sales s))
           in Some (i, s\<lparr>sales := sales s @
                [\<lparr>sale_id = i, sale_product_id = pid, sale_quantity_sold = qs,
                  sale_unit_price = up, sale_total_amount = amount,
                  sale_cashier_name = cashier, sale_payment_method = pm\<rparr>],
                seq_sales := i\<rparr>))"

text \<open>\<^verbatim>\<open>UPDATE inventory SET quantity = ? WHERE product_id = ?\<close>: every matching row.\<close>

definition update_inventory_quantity :: "faults \<Rightarrow> db \<Rightarrow> int \<Rightarrow> int \<Rightarrow> db option" where
  "update_inventory_quantity f s pid q =
     (if f UpdateInventory then None
      else Some (s\<lparr>inventory :=
             map (\<lambda>r. if inv_product_id r = pid then r\<lparr>inv_quantity := q\<rparr> else r) (inventory s)\<rparr>))"

definition insert_stock_movement ::
  "faults \<Rightarrow> db \<Rightarrow> int \<Rightarrow> movement_type \<Rightarrow> int \<Rightarrow> int \<Rightarrow> int \<Rightarrow> string \<Rightarrow> int \<Rightarrow> db option" where
  "insert_stock_movement f s pid ty change prev new reason uid =
     (if f InsertMovement then None
      else let i = fresh_id (seq_movements s) (map mv_id (stock_movements s))
           in Some (s\<lparr>stock_movements := stock_movements s @
                [\<lparr>mv_id = i, mv_product_id = pid, mv_type = ty, mv_quantity_change = change,
                  mv_previous_quantity = prev, mv_new_quantity = new, mv_reason = reason,
                  mv_user_id = uid\<rparr>],
                seq_movements := i\<rparr>))"

section \<open>createLowStockAlert\<close>

definition low_stock_message :: "string \<Rightarrow> int \<Rightarrow> int \<Rightarrow> string" where
  "low_stock_message name currentQuantity reorderLevel =
     (if currentQuantity = 0 then name @ '' is out of stock''
      else name @ '' is running low ('' @ string_of_int currentQuantity
           @ '' remaining, reorder at '' @ string_of_int reorderLevel @ '')'')"

text \<open>
  The existence check selects on \<^verbatim>\<open>alert_type = 'low_stock' AND status = 'active'\<close>;
  an error in either SELECT, an existing row, or a missing product all return without
  inserting. An INSERT error is logged only.
\<close>

definition createLowStockAlert :: "faults \<Rightarrow> db \<Rightarrow> int \<Rightarrow> int \<Rightarrow> int \<Rightarrow> db" where
  "createLowStockAlert f s productId currentQuantity reorderLevel =
     (if f SelectAlert then s
      else case find (\<lambda>a. alert_product_id a = productId \<and> alert_kind a = LowStock
                          \<and> alert_status a = Active) (alerts s) of
        Some existingAlert \<Rightarrow> s
      | None \<Rightarrow>
         (if f SelectProduct then s
          else case find (\<lambda>p. prod_id p = productId) (products s) of
            None \<Rightarrow> s
          | Some product \<Rightarrow>
             (let priority = (if currentQuantity = 0 then Critical else High);
                  alertType = (if currentQuantity = 0 then OutOfStock else LowStock);
                  message = low_stock_message (prod_name product) currentQuantity reorderLevel
              in if f InsertAlert then s
                 else let i = fresh_id (seq_alerts s) (map alert_id (alerts s))
                      in s\<lparr>alerts := alerts s @
                           [\<lparr>alert_id = i, alert_product_id = productId, alert_kind = alertType,
                             alert_message = message, alert_status = Active,
                             alert_priority = priority, alert_resolved_at = None,
                             alert_resolved_by = None\<rparr>],
                           seq_alerts := i\<rparr>)))"

section \<open>POST /api/sales\<close>

record sale_request =
  rq_product_id :: "int option"
  rq_quantity_sold :: "int option"
  rq_unit_price :: "rat option"
  rq_cashier_name :: "string option"
  rq_payment_method :: "string option"

text \<open>
  The handler. The model takes the product id and the quantity of a body to be integer
  literals, as the INTEGER columns they are written to; they arrive as doubles. The unit
  price is the parsed number. A numeric field is falsy (\<^verbatim>\<open>!x\<close>) when
  it is absent or zero. A ROLLBACK gives back the database as it was at BEGIN
  TRANSACTION, which is the argument \<open>s\<close>. \<^verbatim>\<open>row.quantity\<close>, \<^verbatim>\<open>row.reorder_level\<close> and
  \<^verbatim>\<open>this.lastID\<close> are doubles too, and so is the difference
  \<^verbatim>\<open>previousQuantity - quantity_sold\<close>. The alert is raised after COMMIT, on the
  committed database. \<open>uid\<close> is \<^verbatim>\<open>req.user.userId\<close>.
\<close>

definition record_sale ::
  "(rat \<Rightarrow> rat) \<Rightarrow> faults \<Rightarrow> db \<Rightarrow> sale_request \<Rightarrow> int \<Rightarrow> response \<times> db" where
  "record_sale rnd f s rq uid =
     (case (map_option to_double (rq_product_id rq), map_option to_double (rq_quantity_sold rq),
            rq_unit_price rq) of
        (Some product_id, Some quantity_sold, Some unit_price) \<Rightarrow>
          if product_id = 0 \<or> quantity_sold = 0 \<or> unit_price = 0 \<or> quantity_sold \<le> 0
          then (Error400 ''Valid product ID, quantity, and unit price are required'', s)
          else
            let amount = total_amount rnd quantity_sold unit_price;
                payment_method = (case rq_payment_method rq of None \<Rightarrow> ''cash'' | Some m \<Rightarrow> m)
            in if f SelectInventory then (Error400 ''Product not found in inventory'', s)
               else
                (case select_inventory s product_id of
                   None \<Rightarrow> (Error400 ''Product not found in inventory'', s)
                 | Some row \<Rightarrow>
                    if to_double (inv_quantity row) < quantity_sold
                    then (Insufficient (to_double (inv_quantity row)) quantity_sold, s)
                    else
                      let previousQuantity = to_double (inv_quantity row);
                          newQuantity = to_double (previousQuantity - quantity_sold);
                          reorder_level = to_double (inv_reorder_level row)
                      in (case insert_sale f s product_id quantity_sold unit_price amount
                                 (rq_cashier_name rq) payment_method of
                            None \<Rightarrow> (Error500 ''Failed to record sale'', s)
                          | Some (lastID, s1) \<Rightarrow>
                             (case update_inventory_quantity f s1 product_id newQuantity of
                                None \<Rightarrow> (Error500 ''Failed to update inventory'', s)
                              | Some s2 \<Rightarrow>
                                 let saleId = to_double lastID;
                                     s3 = (case insert_stock_movement f s2 product_id MvSale
                                                  (- quantity_sold) previousQuantity newQuantity
                                                  (''Sale #'' @ string_of_int saleId) uid of
                                             None \<Rightarrow> s2
                                           | Some s3 \<Rightarrow> s3);
                                     s4 = (if newQuantity \<le> reorder_level
                                           then createLowStockAlert f s3 product_id newQuantity
                                                  reorder_level
                                           else s3)
                                 in (SaleCreated saleId newQuantity
                                       (newQuantity \<le> reorder_level), s4))))
      | _ \<Rightarrow> (Error400 ''Valid product ID, quantity, and unit price are required'', s))"

section \<open>PUT /api/products/:id\<close>

text \<open>
  The body fields the handler binds, absent ones as \<open>None\<close> (bound as NULL); the integer
  fields are the JSON literals. The product id comes from the URL as text, which SQLite
  compares with the INTEGER key by value.
\<close>

record update_request =
  uq_name :: "string option"
  uq_category :: "string option"
  uq_sell_price :: "rat option"
  uq_sku :: "string option"
  uq_quantity :: "int option"
  uq_reorder_level :: "int option"
  uq_max_stock_level :: "int option"
  uq_location :: "string option"

text \<open>
  \<^verbatim>\<open>UPDATE products SET ... WHERE id = ?\<close>, with \<^verbatim>\<open>this.changes\<close>. When a row matches,
  the statement fails on a NULL bound to one of the NOT NULL columns name, category and
  sell_price, and on a sku that another row holds already (sku is UNIQUE; NULL is not
  a duplicate).
\<close>

definition sku_taken :: "db \<Rightarrow> int \<Rightarrow> string option \<Rightarrow> bool" where
  "sku_taken s pid sku =
     (case sku of
        None \<Rightarrow> False
      | Some k \<Rightarrow>
         1 < length (filter (\<lambda>p. prod_id p = pid) (products s))
         \<or> find (\<lambda>p. prod_id p \<noteq> pid \<and> prod_sku p = Some k) (products s) \<noteq> None)"

definition update_products_row ::
  "faults \<Rightarrow> db \<Rightarrow> int \<Rightarrow> update_request \<Rightarrow> (nat \<times> db) option" where
  "update_products_row f s pid rq =
     (let hits = filter (\<lambda>p. prod_id p = pid) (products s)
      in if f UpdateProduct then None
         else if hits = [] then Some (0, s)
         else (case (uq_name rq, uq_category rq, uq_sell_price rq) of
                 (Some n, Some c, Some sp) \<Rightarrow>
                   if sku_taken s pid (uq_sku rq) then None
                   else Some (length hits,
                     s\<lparr>products := map (\<lambda>p. if prod_id p = pid
                                            then p\<lparr>prod_name := n, prod_category := c,
                                                   prod_sell_price := sp, prod_sku := uq_sku rq\<rparr>
                                            else p) (products s)\<rparr>)
               | _ \<Rightarrow> None))"

text \<open>
  \<^verbatim>\<open>UPDATE inventory SET quantity = ?, reorder_level = ?, max_stock_level = ?,
  location = ? WHERE product_id = ?\<close>; quantity and reorder_level are NOT NULL.
\<close>

definition update_inventory_row :: "faults \<Rightarrow> db \<Rightarrow> int \<Rightarrow> update_request \<Rightarrow> db option" where
  "update_inventory_row f s pid rq =
     (if f UpdateInventory then None
      else if select_inventory s pid = None then Some s
      else (case (map_option to_double (uq_quantity rq),
                  map_option to_double (uq_reorder_level rq)) of
              (Some q, Some r) \<Rightarrow>
                Some (s\<lparr>inventory := map (\<lambda>row. if inv_product_id row = pid
                          then row\<lparr>inv_quantity := q, inv_reorder_level := r,
                                   inv_max_stock_level :=
                                     map_option to_double (uq_max_stock_level rq),
                                   inv_location := uq_location rq\<rparr>
                          else row) (inventory s)\<rparr>)
            | _ \<Rightarrow> None))"

text \<open>
  The handler. \<^verbatim>\<open>row.quantity\<close> is a double, and so is the difference
  \<^verbatim>\<open>quantity - previousQuantity\<close>. The movement INSERT has no callback: when it fails (a
  fault, or an absent quantity, whose change is NaN and binds as NULL) nothing is
  inserted and the COMMIT that follows still runs.
\<close>

definition update_product ::
  "faults \<Rightarrow> db \<Rightarrow> int \<Rightarrow> update_request \<Rightarrow> int \<Rightarrow> response \<times> db" where
  "update_product f s pid rq uid =
     (case update_products_row f s pid rq of
        None \<Rightarrow> (Error400 ''Failed to update product'', s)
      | Some (changes, s1) \<Rightarrow>
         if changes = 0 then (Error404 ''Product not found'', s)
         else if f SelectInventory then (Error500 ''Failed to fetch current inventory'', s)
         else
           let previousQuantity =
                 (case select_inventory s1 pid of
                    Some row \<Rightarrow> to_double (inv_quantity row)
                  | None \<Rightarrow> 0)
           in (case update_inventory_row f s1 pid rq of
                 None \<Rightarrow> (Error500 ''Failed to update inventory'', s)
               | Some s2 \<Rightarrow>
                  let s3 =
                    (if map_option to_double (uq_quantity rq) \<noteq> Some previousQuantity
                     then (case map_option to_double (uq_quantity rq) of
                             None \<Rightarrow> s2
                           | Some quantity \<Rightarrow>
                              (case insert_stock_movement f s2 pid MvAdjustment
                                      (to_double (quantity - previousQuantity))
                                      previousQuantity quantity ''Manual adjustment'' uid of
                                 None \<Rightarrow> s2
                               | Some s3 \<Rightarrow> s3))
                     else s2)
                  in (Ok200 ''Product updated successfully'', s3)))"

section \<open>PUT /api/alerts/:id/resolve\<close>

text \<open>
  \<^verbatim>\<open>UPDATE alerts SET status = 'resolved', resolved_at = CURRENT_TIMESTAMP,
  resolved_by = ? WHERE id = ?\<close>, then \<^verbatim>\<open>this.changes === 0\<close>. \<open>now\<close> is the clock.
\<close>

definition resolve_alert :: "faults \<Rightarrow> db \<Rightarrow> int \<Rightarrow> string \<Rightarrow> nat \<Rightarrow> response \<times> db" where
  "resolve_alert f s aid username now =
     (if f UpdateAlert then (Error500 ''Failed to resolve alert'', s)
      else if length (filter (\<lambda>a. alert_id a = aid) (alerts s)) = 0
      then (Error404 ''Alert not found'', s)
      else (Ok200 ''Alert resolved successfully'',
            s\<lparr>alerts := map (\<lambda>a. if alert_id a = aid
                                 then a\<lparr>alert_status := Resolved, alert_resolved_at := Some now,
                                        alert_resolved_by := Some username\<rparr>
                                 else a) (alerts s)\<rparr>))"

section \<open>Example data and a change of the stored prices\<close>

text \<open>A shop with one product, five in stock, reorder level 15, and a sale request for it.\<close>

definition shop :: db where
  "shop = \<lparr>products = [\<lparr>prod_id = 1, prod_name = ''Mug'', prod_category = ''Accessories'',
                         prod_sell_price = 1295 / 100, prod_sku = Some ''HRV-MUG-001''\<rparr>],
            inventory = [\<lparr>inv_product_id = 1, inv_quantity = 5, inv_reorder_level = 15,
                          inv_max_stock_level = Some 100, inv_location = Some ''Main Store''\<rparr>],
            sales = [], alerts = [], stock_movements = [],
            seq_sales = 0, seq_alerts = 0, seq_movements = 0\<rparr>"

definition sell :: "int \<Rightarrow> rat \<Rightarrow> sale_request" where
  "sell qs up = \<lparr>rq_product_id = Some 1, rq_quantity_sold = Some qs, rq_unit_price = Some up,
                 rq_cashier_name = Some ''Sam'', rq_payment_method = None\<rparr>"

text \<open>A request to update the same product, setting its quantity.\<close>

definition adjust :: "int \<Rightarrow> update_request" where
  "adjust q = \<lparr>uq_name = Some ''Mug'', uq_category = Some ''Accessories'',
               uq_sell_price = Some (1295 / 100), uq_sku = Some ''HRV-MUG-001'',
               uq_quantity = Some q, uq_reorder_level = Some 15, uq_max_stock_level = Some 100,
               uq_location = Some ''Main Store''\<rparr>"


text \<open>The shop once the product is sold out.\<close>

definition sold_out :: db where
  "sold_out = shop\<lparr>inventory := [\<lparr>inv_product_id = 1, inv_quantity = 0, inv_reorder_level = 15,
                          inv_max_stock_level = Some 100, inv_location = Some ''Main Store''\<rparr>]\<rparr>"

text \<open>The shop with one alert on the product, in a given status.\<close>

definition alerted :: "alert_status \<Rightarrow> db" where
  "alerted st = shop\<lparr>alerts :=
      [\<lparr>alert_id = 1, alert_product_id = 1, alert_kind = LowStock,
        alert_message = ''Mug is running low (5 remaining, reorder at 15)'',
        alert_status = st, alert_priority = High,
        alert_resolved_at = (if st = Active then None else Some 10),
        alert_resolved_by = (if st = Active then None else Some ''alice'')\<rparr>],
      seq_alerts := 1\<rparr>"

text \<open>The same database with other sell prices stored in the products table.\<close>

definition reprice :: "(product \<Rightarrow> rat) \<Rightarrow> db \<Rightarrow> db" where
  "reprice g s = s\<lparr>products := map (\<lambda>p. p\<lparr>prod_sell_price := g p\<rparr>) (products s)\<rparr>"

section \<open>Integers as doubles\<close>


lemma to_double_beyond:
  assumes "\<not> \<bar>n\<bar> \<le> 2 ^ 53"
  shows "to_double n =
     sgn n * ((if 2 ^ nat (bitlen \<bar>n\<bar> - 53) < 2 * (\<bar>n\<bar> mod 2 ^ nat (bitlen \<bar>n\<bar> - 53))
                  \<or> (2 * (\<bar>n\<bar> mod 2 ^ nat (bitlen \<bar>n\<bar> - 53)) = 2 ^ nat (bitlen \<bar>n\<bar> - 53)
                      \<and> odd (\<bar>n\<bar> div 2 ^ nat (bitlen \<bar>n\<bar> - 53)))
               then \<bar>n\<bar> div 2 ^ nat (bitlen \<bar>n\<bar> - 53) + 1
               else \<bar>n\<bar> div 2 ^ nat (bitlen \<bar>n\<bar> - 53)) * 2 ^ nat (bitlen \<bar>n\<bar> - 53))"
  unfolding to_double_def Let_def by (simp only: assms if_False)

lemma to_double_nonneg:
  assumes "0 \<le> n"
  shows "0 \<le> to_double n"
proof (cases "\<bar>n\<bar> \<le> 2 ^ 53")
  case True
  with assms show ?thesis by (simp add: to_double_def)
next
  case False
  define m :: int where "m = 2 ^ nat (bitlen \<bar>n\<bar> - 53)"
  have m: "0 < m" by (simp add: m_def)
  have q: "0 \<le> \<bar>n\<bar> div m"
    using m by (simp add: pos_imp_zdiv_nonneg_iff)
  then have q1: "0 \<le> \<bar>n\<bar> div m + 1" by simp
  have "0 \<le> (if m < 2 * (\<bar>n\<bar> mod m) \<or> (2 * (\<bar>n\<bar> mod m) = m \<and> odd (\<bar>n\<bar> div m))
              then \<bar>n\<bar> div m + 1 else \<bar>n\<bar> div m)"
    using q q1 by (simp only: if_split) blast
  then have "0 \<le> (if m < 2 * (\<bar>n\<bar> mod m) \<or> (2 * (\<bar>n\<bar> mod m) = m \<and> odd (\<bar>n\<bar> div m))
              then \<bar>n\<bar> div m + 1 else \<bar>n\<bar> div m) * m"
    using m by (intro mult_nonneg_nonneg) simp_all
  moreover have "sgn n = 1"
    using False assms by (simp add: sgn_if)
  ultimately show ?thesis
    unfolding to_double_beyond [OF False] m_def by (simp only: mult_1)
qed

lemma to_double_small:
  "to_double 0 = 0" "to_double 1 = 1" "to_double 2 = 2" "to_double 3 = 3" "to_double 5 = 5"
  "to_double 6 = 6" "to_double 8 = 8" "to_double 10 = 10" "to_double 15 = 15"
  "to_double 100 = 100" "to_double (- 5) = - 5"
  by (simp_all add: to_double_def)


section \<open>Runs of the sale handler\<close>

text \<open>The alert helper touches the alerts table only.\<close>

lemma createLowStockAlert_keeps:
  "sales (createLowStockAlert f s p q r) = sales s"
  "inventory (createLowStockAlert f s p q r) = inventory s"
  "stock_movements (createLowStockAlert f s p q r) = stock_movements s"
  "products (createLowStockAlert f s p q r) = products s"
  "seq_sales (createLowStockAlert f s p q r) = seq_sales s"
  "seq_movements (createLowStockAlert f s p q r) = seq_movements s"
  by (simp_all add: createLowStockAlert_def Let_def split: option.splits)

lemma find_update_quantity:
  "find (\<lambda>r. inv_product_id r = pid) xs = Some row \<Longrightarrow>
   find (\<lambda>r. inv_product_id r = pid)
     (map (\<lambda>r. if inv_product_id r = pid then r\<lparr>inv_quantity := q\<rparr> else r) xs)
   = Some (row\<lparr>inv_quantity := q\<rparr>)"
  by (induction xs) (auto split: if_splits)

text \<open>The shape of every run of the sale handler that answers 201.\<close>

lemma record_sale_created:
  assumes "record_sale rnd f s rq uid = (SaleCreated sid nq low, s')"
  obtains p n up row lastID s1 s2 s3 where
    "rq_product_id rq = Some p" "rq_quantity_sold rq = Some n" "rq_unit_price rq = Some up"
    "to_double p \<noteq> 0" "0 < to_double n" "up \<noteq> 0" "\<not> f SelectInventory"
    "select_inventory s (to_double p) = Some row"
    "to_double n \<le> to_double (inv_quantity row)"
    "nq = to_double (to_double (inv_quantity row) - to_double n)"
    "low = (nq \<le> to_double (inv_reorder_level row))"
    "insert_sale f s (to_double p) (to_double n) up (total_amount rnd (to_double n) up)
       (rq_cashier_name rq)
       (case rq_payment_method rq of None \<Rightarrow> ''cash'' | Some m \<Rightarrow> m) = Some (lastID, s1)"
    "sid = to_double lastID"
    "update_inventory_quantity f s1 (to_double p) nq = Some s2"
    "s3 = (case insert_stock_movement f s2 (to_double p) MvSale (- to_double n)
                  (to_double (inv_quantity row)) nq
                  (''Sale #'' @ string_of_int sid) uid of None \<Rightarrow> s2 | Some t \<Rightarrow> t)"
    "s' = (if nq \<le> to_double (inv_reorder_level row)
           then createLowStockAlert f s3 (to_double p) nq (to_double (inv_reorder_level row))
           else s3)"
  using assms
  by (auto simp: record_sale_def Let_def split: option.splits if_splits prod.splits)

lemma record_sale_error_unchanged:
  assumes "record_sale rnd f s rq uid = (resp, s')"
    and "\<And>i q l. resp \<noteq> SaleCreated i q l"
  shows "s' = s"
  using assms
  by (auto simp: record_sale_def Let_def split: option.splits if_splits prod.splits)

text \<open>What a sale that is answered 201 has written.\<close>

lemma record_sale_effect:
  assumes "record_sale rnd f s rq uid = (SaleCreated sid nq low, s')"
  obtains p n up row sl where
    "rq_product_id rq = Some p" "rq_quantity_sold rq = Some n" "rq_unit_price rq = Some up"
    "select_inventory s (to_double p) = Some row"
    "0 < to_double n" "to_double n \<le> to_double (inv_quantity row)"
    "nq = to_double (to_double (inv_quantity row) - to_double n)"
    "low = (nq \<le> to_double (inv_reorder_level row))"
    "\<not> f SelectInventory" "\<not> f InsertSale" "\<not> f UpdateInventory"
    "sales s' = sales s @ [sl]" "to_double (sale_id sl) = sid"
    "sale_product_id sl = to_double p" "sale_quantity_sold sl = to_double n"
    "sale_unit_price sl = up" "sale_total_amount sl = total_amount rnd (to_double n) up"
    "inventory s' = map (\<lambda>r. if inv_product_id r = to_double p then r\<lparr>inv_quantity := nq\<rparr>
                               else r) (inventory s)"
    "stock_movements s' =
       (if f InsertMovement then stock_movements s
        else stock_movements s @
          [\<lparr>mv_id = fresh_id (seq_movements s) (map mv_id (stock_movements s)),
            mv_product_id = to_double p, mv_type = MvSale, mv_quantity_change = - to_double n,
            mv_previous_quantity = to_double (inv_quantity row), mv_new_quantity = nq,
            mv_reason = ''Sale #'' @ string_of_int sid, mv_user_id = uid\<rparr>])"
    "products s' = products s"
  using assms
proof (elim record_sale_created)
  fix p n up row lastID s1 s2 s3
  assume a: "rq_product_id rq = Some p" "rq_quantity_sold rq = Some n"
    "rq_unit_price rq = Some up"
    "0 < to_double n" "\<not> f SelectInventory"
    "select_inventory s (to_double p) = Some row"
    "to_double n \<le> to_double (inv_quantity row)"
    "nq = to_double (to_double (inv_quantity row) - to_double n)"
    "low = (nq \<le> to_double (inv_reorder_level row))"
    and i: "insert_sale f s (to_double p) (to_double n) up (total_amount rnd (to_double n) up)
       (rq_cashier_name rq)
       (case rq_payment_method rq of None \<Rightarrow> ''cash'' | Some m \<Rightarrow> m) = Some (lastID, s1)"
    "sid = to_double lastID"
    and u: "update_inventory_quantity f s1 (to_double p) nq = Some s2"
    and m: "s3 = (case insert_stock_movement f s2 (to_double p) MvSale (- to_double n)
                  (to_double (inv_quantity row)) nq
                  (''Sale #'' @ string_of_int sid) uid of None \<Rightarrow> s2 | Some t \<Rightarrow> t)"
    and e: "s' = (if nq \<le> to_double (inv_reorder_level row)
           then createLowStockAlert f s3 (to_double p) nq (to_double (inv_reorder_level row))
           else s3)"
  let ?sl = "\<lparr>sale_id = lastID, sale_product_id = to_double p, sale_quantity_sold = to_double n,
               sale_unit_price = up, sale_total_amount = total_amount rnd (to_double n) up,
               sale_cashier_name = rq_cashier_name rq,
               sale_payment_method =
                 (case rq_payment_method rq of None \<Rightarrow> ''cash'' | Some m \<Rightarrow> m)\<rparr>"
  from i(1) have s1: "\<not> f InsertSale" "sales s1 = sales s @ [?sl]" "inventory s1 = inventory s"
      "stock_movements s1 = stock_movements s" "products s1 = products s"
      "seq_movements s1 = seq_movements s"
    by (auto simp: insert_sale_def Let_def split: if_splits)
  from u have s2: "\<not> f UpdateInventory" "sales s2 = sales s1"
      "stock_movements s2 = stock_movements s1" "products s2 = products s1"
      "seq_movements s2 = seq_movements s1"
      "inventory s2 = map (\<lambda>r. if inv_product_id r = to_double p then r\<lparr>inv_quantity := nq\<rparr>
                                else r) (inventory s1)"
    by (auto simp: update_inventory_quantity_def split: if_splits)
  from m have s3: "sales s3 = sales s2" "inventory s3 = inventory s2" "products s3 = products s2"
    "stock_movements s3 =
       (if f InsertMovement then stock_movements s2
        else stock_movements s2 @
          [\<lparr>mv_id = fresh_id (seq_movements s2) (map mv_id (stock_movements s2)),
            mv_product_id = to_double p, mv_type = MvSale, mv_quantity_change = - to_double n,
            mv_previous_quantity = to_double (inv_quantity row), mv_new_quantity = nq,
            mv_reason = ''Sale #'' @ string_of_int sid, mv_user_id = uid\<rparr>])"
    by (simp_all add: insert_stock_movement_def Let_def)
  from e have fin: "sales s' = sales s3" "inventory s' = inventory s3"
      "stock_movements s' = stock_movements s3" "products s' = products s3"
    by (simp_all add: createLowStockAlert_keeps)
  show ?thesis
  proof (rule that [of p n up row ?sl])
    show "stock_movements s' =
       (if f InsertMovement then stock_movements s
        else stock_movements s @
          [\<lparr>mv_id = fresh_id (seq_movements s) (map mv_id (stock_movements s)),
            mv_product_id = to_double p, mv_type = MvSale, mv_quantity_change = - to_double n,
            mv_previous_quantity = to_double (inv_quantity row), mv_new_quantity = nq,
            mv_reason = ''Sale #'' @ string_of_int sid, mv_user_id = uid\<rparr>])"
      by (simp add: fin s3 s2 s1)
  qed (simp_all add: a i fin s3 s2 s1)
qed

text \<open>When a sale is answered 201.\<close>

lemma record_sale_answers:
  assumes "rq_product_id rq = Some p" and "rq_quantity_sold rq = Some n"
    and "rq_unit_price rq = Some up"
    and "to_double p \<noteq> 0" and "0 < to_double n" and "up \<noteq> 0"
    and "select_inventory s (to_double p) = Some row"
    and "to_double n \<le> to_double (inv_quantity row)"
    and "\<not> f SelectInventory" and "\<not> f InsertSale" and "\<not> f UpdateInventory"
  shows "fst (record_sale rnd f s rq uid) =
     SaleCreated (to_double (fresh_id (seq_sales s) (map sale_id (sales s))))
       (to_double (to_double (inv_quantity row) - to_double n))
       (to_double (to_double (inv_quantity row) - to_double n)
          \<le> to_double (inv_reorder_level row))"
  using assms
  by (simp add: record_sale_def insert_sale_def update_inventory_quantity_def Let_def)

section \<open>Runs of the update handler\<close>





section \<open>The example data\<close>

lemma shop_row:
  "select_inventory shop 1 =
     Some \<lparr>inv_product_id = 1, inv_quantity = 5, inv_reorder_level = 15,
           inv_max_stock_level = Some 100, inv_location = Some ''Main Store''\<rparr>"
  by (simp add: shop_def select_inventory_def)

lemma shop_tables:
  "inventory shop = [\<lparr>inv_product_id = 1, inv_quantity = 5, inv_reorder_level = 15,
           inv_max_stock_level = Some 100, inv_location = Some ''Main Store''\<rparr>]"
  "sales shop = []" "stock_movements shop = []" "alerts shop = []"
  "seq_sales shop = 0" "seq_movements shop = 0" "seq_alerts shop = 0"
  by (simp_all add: shop_def)

lemma sell_fields:
  "rq_product_id (sell qs up) = Some 1" "rq_quantity_sold (sell qs up) = Some qs"
  "rq_unit_price (sell qs up) = Some up"
  by (simp_all add: sell_def)

lemma adjust_fields:
  "uq_name (adjust q) = Some ''Mug''" "uq_category (adjust q) = Some ''Accessories''"
  "uq_sell_price (adjust q) = Some (1295 / 100)" "uq_sku (adjust q) = Some ''HRV-MUG-001''"
  "uq_quantity (adjust q) = Some q" "uq_reorder_level (adjust q) = Some 15"
  "uq_max_stock_level (adjust q) = Some 100" "uq_location (adjust q) = Some ''Main Store''"
  by (simp_all add: adjust_def)

lemma shop_products:
  "filter (\<lambda>p. prod_id p = 1) (products shop) \<noteq> []"
  "\<not> sku_taken shop 1 (Some ''HRV-MUG-001'')"
  "filter (\<lambda>p. prod_id p = 1) (products (shop\<lparr>inventory := []\<rparr>)) \<noteq> []"
  "\<not> sku_taken (shop\<lparr>inventory := []\<rparr>) 1 (Some ''HRV-MUG-001'')"
  by (simp_all add: shop_def sku_taken_def)



section \<open>Rounding to two decimals\<close>




section \<open>The stored sell price\<close>

text \<open>Every statement of the sale handler commutes with a change of the stored prices.\<close>

lemma reprice_tables:
  "inventory (reprice g s) = inventory s" "sales (reprice g s) = sales s"
  "alerts (reprice g s) = alerts s" "stock_movements (reprice g s) = stock_movements s"
  "seq_sales (reprice g s) = seq_sales s" "seq_alerts (reprice g s) = seq_alerts s"
  "seq_movements (reprice g s) = seq_movements s"
  by (simp_all add: reprice_def)

lemma reprice_select_inventory: "select_inventory (reprice g s) pid = select_inventory s pid"
  by (simp add: select_inventory_def reprice_tables)

lemma reprice_insert_sale:
  "insert_sale f (reprice g s) pid qs up amount cashier pm =
     map_option (\<lambda>(i, t). (i, reprice g t)) (insert_sale f s pid qs up amount cashier pm)"
  by (simp add: insert_sale_def reprice_def Let_def)

lemma reprice_update_inventory_quantity:
  "update_inventory_quantity f (reprice g s) pid q =
     map_option (reprice g) (update_inventory_quantity f s pid q)"
  by (simp add: update_inventory_quantity_def reprice_def)

lemma reprice_insert_stock_movement:
  "insert_stock_movement f (reprice g s) pid ty c p n rs uid =
     map_option (reprice g) (insert_stock_movement f s pid ty c p n rs uid)"
  by (simp add: insert_stock_movement_def reprice_def Let_def)

lemma reprice_find_product:
  "find (\<lambda>p. prod_id p = pid) (map (\<lambda>p. p\<lparr>prod_sell_price := g p\<rparr>) ps) =
     map_option (\<lambda>p. p\<lparr>prod_sell_price := g p\<rparr>) (find (\<lambda>p. prod_id p = pid) ps)"
  by (induction ps) auto

lemma reprice_createLowStockAlert:
  "createLowStockAlert f (reprice g s) pid q r = reprice g (createLowStockAlert f s pid q r)"
  by (cases "find (\<lambda>p. prod_id p = pid) (products s)")
     (simp_all add: createLowStockAlert_def reprice_def reprice_find_product Let_def
        split: option.splits)

section \<open>Sales never overdraw\<close>

text \<open>
  The sale handler keeps every quantity non-negative: it rejects a sale of more than
  the row holds, and writes the difference otherwise.
\<close>

lemma record_sale_quantity_nonneg:
  assumes "list_all (\<lambda>r. 0 \<le> inv_quantity r) (inventory s)"
  shows "list_all (\<lambda>r. 0 \<le> inv_quantity r) (inventory (snd (record_sale rnd f s rq uid)))"
proof (cases "\<exists>i q l. fst (record_sale rnd f s rq uid) = SaleCreated i q l")
  case False
  then have "snd (record_sale rnd f s rq uid) = s"
    using record_sale_error_unchanged [of rnd f s rq uid "fst (record_sale rnd f s rq uid)"
        "snd (record_sale rnd f s rq uid)"]
    by simp
  with assms show ?thesis by simp
next
  case True
  then obtain i q l where
    "record_sale rnd f s rq uid = (SaleCreated i q l, snd (record_sale rnd f s rq uid))"
    by (metis prod.collapse)
  then show ?thesis
  proof (elim record_sale_effect)
    fix p n and row :: inventory_row
    assume a: "to_double n \<le> to_double (inv_quantity row)"
      "q = to_double (to_double (inv_quantity row) - to_double n)"
      "inventory (snd (record_sale rnd f s rq uid)) =
         map (\<lambda>r. if inv_product_id r = to_double p then r\<lparr>inv_quantity := q\<rparr> else r)
           (inventory s)"
    from a(1) have "0 \<le> to_double (inv_quantity row) - to_double n" by simp
    then have "0 \<le> q" unfolding a(2) by (rule to_double_nonneg)
    with a(3) assms show ?thesis
      by (auto simp: list_all_iff)
  qed
qed

section \<open>Runs of the alert helper\<close>

text \<open>With an active low-stock alert on the product, the helper inserts nothing.\<close>

lemma createLowStockAlert_existing_low_stock:
  assumes "find (\<lambda>a. alert_product_id a = pid \<and> alert_kind a = LowStock
                     \<and> alert_status a = Active) (alerts s) = Some a"
  shows "createLowStockAlert f s pid q r = s"
  using assms by (simp add: createLowStockAlert_def)

text \<open>The message contains the name, and in the low-stock case both numbers.\<close>

lemma low_stock_message_embeds:
  "sublist name (low_stock_message name q r)"
  "q \<noteq> 0 \<Longrightarrow> sublist (string_of_int q) (low_stock_message name q r)"
  "q \<noteq> 0 \<Longrightarrow> sublist (string_of_int r) (low_stock_message name q r)"
proof -
  show "sublist name (low_stock_message name q r)"
    by (simp add: low_stock_message_def)
  assume "q \<noteq> 0"
  then have m: "low_stock_message name q r =
      (name @ '' is running low ('') @ string_of_int q
        @ ('' remaining, reorder at '' @ string_of_int r @ '')'')"
    "low_stock_message name q r =
      (name @ '' is running low ('' @ string_of_int q @ '' remaining, reorder at '')
        @ string_of_int r @ '')''"
    by (simp_all add: low_stock_message_def)
  show "sublist (string_of_int q) (low_stock_message name q r)"
    unfolding m(1) by (rule sublist_appendI)
  show "sublist (string_of_int r) (low_stock_message name q r)"
    unfolding m(2) by (rule sublist_appendI)
qed

lemma string_of_int_examples:
  "string_of_int 0 = ''0''" "string_of_int 3 = ''3''" "string_of_int 15 = ''15''"
  by (simp_all add: string_of_int_def digit_char_def)

section \<open>Runs of the resolve handler\<close>

lemma resolve_alert_missing:
  assumes "\<not> f UpdateAlert" and "aid \<notin> alert_id ` set (alerts s)"
  shows "resolve_alert f s aid username now = (Error404 ''Alert not found'', s)"
proof -
  from assms(2) have "filter (\<lambda>a. alert_id a = aid) (alerts s) = []"
    by (auto simp: filter_empty_conv)
  with assms(1) show ?thesis by (simp add: resolve_alert_def)
qed

lemma resolve_alert_found:
  assumes "\<not> f UpdateAlert" and "aid \<in> alert_id ` set (alerts s)"
  shows "resolve_alert f s aid username now =
     (Ok200 ''Alert resolved successfully'',
      s\<lparr>alerts := map (\<lambda>a. if alert_id a = aid
                             then a\<lparr>alert_status := Resolved, alert_resolved_at := Some now,
                                    alert_resolved_by := Some username\<rparr>
                             else a) (alerts s)\<rparr>)"
proof -
  from assms(2) have "filter (\<lambda>a. alert_id a = aid) (alerts s) \<noteq> []"
    by (auto simp: filter_empty_conv)
  with assms(1) show ?thesis by (simp add: resolve_alert_def)
qed

lemma resolve_others_kept:
  "filter (\<lambda>a. alert_id a \<noteq> aid)
     (map (\<lambda>a. if alert_id a = aid
                then a\<lparr>alert_status := st, alert_resolved_at := t, alert_resolved_by := u\<rparr>
                else a) xs)
   = filter (\<lambda>a. alert_id a \<noteq> aid) xs"
  by (induction xs) simp_all

lemma resolved_rows:
  assumes "b \<in> set (map (\<lambda>a. if alert_id a = aid
                 then a\<lparr>alert_status := Resolved, alert_resolved_at := Some now,
                        alert_resolved_by := Some username\<rparr>
                 else a) xs)" and "alert_id b = aid"
  shows "alert_status b = Resolved \<and> alert_resolved_by b = Some username
              \<and> alert_resolved_at b = Some now"
proof -
  from assms(1) obtain a where a: "a \<in> set xs"
    "b = (if alert_id a = aid
          then a\<lparr>alert_status := Resolved, alert_resolved_at := Some now,
                 alert_resolved_by := Some username\<rparr>
          else a)"
    by auto
  show ?thesis
  proof (cases "alert_id a = aid")
    case True
    with a(2) have "b = a\<lparr>alert_status := Resolved, alert_resolved_at := Some now,
                 alert_resolved_by := Some username\<rparr>"
      by simp
    then show ?thesis by simp
  next
    case False
    with a(2) have "b = a" by simp
    with False assms(2) show ?thesis by simp
  qed
qed

section \<open>Two sales one after the other\<close>

text \<open>
  When one request is handled after the other has committed, the second sees the
  quantity the first left: if that is less than what it asks for, it is rejected.
\<close>

lemma two_sales_in_sequence:
  assumes "record_sale rnd f s rq uid = (SaleCreated sid nq low, s')"
    and "rq_quantity_sold rq = Some n" and "to_double nq < to_double n"
  shows "record_sale rnd f s' rq uid = (Insufficient (to_double nq) (to_double n), s')"
  using assms(1)
proof (elim record_sale_created)
  fix p n' up and row :: inventory_row
  assume a: "rq_product_id rq = Some p" "rq_quantity_sold rq = Some n'"
    "rq_unit_price rq = Some up" "to_double p \<noteq> 0" "0 < to_double n'" "up \<noteq> 0"
    "\<not> f SelectInventory" "select_inventory s (to_double p) = Some row"
  from assms(1) a(1) have "inventory s' =
      map (\<lambda>r. if inv_product_id r = to_double p then r\<lparr>inv_quantity := nq\<rparr> else r)
        (inventory s)"
    by (elim record_sale_effect) simp
  then have sel: "select_inventory s' (to_double p) = Some (row\<lparr>inv_quantity := nq\<rparr>)"
    using a(8) find_update_quantity [of "to_double p" "inventory s" row nq]
    by (simp add: select_inventory_def)
  from a(2) assms(2) have "n' = n" by simp
  with a(1-7) sel assms(3) show ?thesis
    by (simp add: record_sale_def)
qed

section \<open>Atomicity of a sale\<close>

text \<open>
  C1, as amended. Whenever the inventory SELECT, the Sale INSERT or the inventory UPDATE
  fails, and more generally whenever the handler answers anything but 201, the database
  after the call is the database before it: no Sale row, no quantity change, no
  StockMovement row. A failure of the StockMovement INSERT is not such a case: for
  every request that passes the validation, on a product whose row is read and holds
  enough, with the Sale INSERT and the inventory UPDATE succeeding, the handler answers
  201, the Sale row and the new quantity are committed, and no StockMovement row is
  written.
\<close>

theorem record_sale_rollback:
  "((f SelectInventory \<or> f InsertSale \<or> f UpdateInventory
       \<or> (\<forall>i q l. fst (record_sale rnd f s rq uid) \<noteq> SaleCreated i q l))
      \<longrightarrow> snd (record_sale rnd f s rq uid) = s)
   \<and> (rq_product_id rq = Some p \<and> rq_quantity_sold rq = Some n \<and> rq_unit_price rq = Some up
       \<and> to_double p \<noteq> 0 \<and> 0 < to_double n \<and> up \<noteq> 0
       \<and> select_inventory s (to_double p) = Some row
       \<and> to_double n \<le> to_double (inv_quantity row)
       \<and> \<not> f SelectInventory \<and> \<not> f InsertSale \<and> \<not> f UpdateInventory \<and> f InsertMovement
      \<longrightarrow> (\<exists>sid low sl.
            fst (record_sale rnd f s rq uid) =
              SaleCreated sid (to_double (to_double (inv_quantity row) - to_double n)) low
            \<and> sales (snd (record_sale rnd f s rq uid)) = sales s @ [sl]
            \<and> to_double (sale_id sl) = sid
            \<and> inventory (snd (record_sale rnd f s rq uid)) =
                map (\<lambda>r. if inv_product_id r = to_double p
                          then r\<lparr>inv_quantity :=
                                   to_double (to_double (inv_quantity row) - to_double n)\<rparr>
                          else r) (inventory s)
            \<and> stock_movements (snd (record_sale rnd f s rq uid)) = stock_movements s))"
proof (intro conjI impI)
  obtain resp s' where r: "record_sale rnd f s rq uid = (resp, s')"
    by (cases "record_sale rnd f s rq uid")
  assume c: "f SelectInventory \<or> f InsertSale \<or> f UpdateInventory
       \<or> (\<forall>i q l. fst (record_sale rnd f s rq uid) \<noteq> SaleCreated i q l)"
  have "resp \<noteq> SaleCreated i q l" for i q l
  proof
    assume "resp = SaleCreated i q l"
    with r have run: "record_sale rnd f s rq uid = (SaleCreated i q l, s')" by simp
    from run have "\<not> f SelectInventory \<and> \<not> f InsertSale \<and> \<not> f UpdateInventory"
      by (elim record_sale_effect) simp
    with c run show False by auto
  qed
  with r have "s' = s" by (rule record_sale_error_unchanged)
  with r show "snd (record_sale rnd f s rq uid) = s" by simp
next
  assume h: "rq_product_id rq = Some p \<and> rq_quantity_sold rq = Some n \<and> rq_unit_price rq = Some up
       \<and> to_double p \<noteq> 0 \<and> 0 < to_double n \<and> up \<noteq> 0
       \<and> select_inventory s (to_double p) = Some row
       \<and> to_double n \<le> to_double (inv_quantity row)
       \<and> \<not> f SelectInventory \<and> \<not> f InsertSale \<and> \<not> f UpdateInventory \<and> f InsertMovement"
  let ?nq = "to_double (to_double (inv_quantity row) - to_double n)"
  from h have hs: "rq_product_id rq = Some p" "rq_quantity_sold rq = Some n"
      "rq_unit_price rq = Some up" "to_double p \<noteq> 0" "0 < to_double n" "up \<noteq> 0"
      "select_inventory s (to_double p) = Some row"
      "to_double n \<le> to_double (inv_quantity row)"
      "\<not> f SelectInventory" "\<not> f InsertSale" "\<not> f UpdateInventory" "f InsertMovement"
    by blast+
  have "fst (record_sale rnd f s rq uid) =
     SaleCreated (to_double (fresh_id (seq_sales s) (map sale_id (sales s)))) ?nq
       (?nq \<le> to_double (inv_reorder_level row))"
    using hs(1-11) by (rule record_sale_answers)
  then obtain sid low where ans: "fst (record_sale rnd f s rq uid) = SaleCreated sid ?nq low"
    by blast
  then have run: "record_sale rnd f s rq uid
      = (SaleCreated sid ?nq low, snd (record_sale rnd f s rq uid))"
    by (metis prod.collapse)
  from run show "\<exists>sid low sl.
            fst (record_sale rnd f s rq uid) = SaleCreated sid ?nq low
            \<and> sales (snd (record_sale rnd f s rq uid)) = sales s @ [sl]
            \<and> to_double (sale_id sl) = sid
            \<and> inventory (snd (record_sale rnd f s rq uid)) =
                map (\<lambda>r. if inv_product_id r = to_double p then r\<lparr>inv_quantity := ?nq\<rparr>
                          else r) (inventory s)
            \<and> stock_movements (snd (record_sale rnd f s rq uid)) = stock_movements s"
  proof (elim record_sale_effect)
    fix p' n' up' row' sl
    assume a: "rq_product_id rq = Some p'"
      "sales (snd (record_sale rnd f s rq uid)) = sales s @ [sl]" "to_double (sale_id sl) = sid"
      "inventory (snd (record_sale rnd f s rq uid)) =
         map (\<lambda>r. if inv_product_id r = to_double p' then r\<lparr>inv_quantity := ?nq\<rparr> else r)
           (inventory s)"
      "stock_movements (snd (record_sale rnd f s rq uid)) =
       (if f InsertMovement then stock_movements s
        else stock_movements s @
          [\<lparr>mv_id = fresh_id (seq_movements s) (map mv_id (stock_movements s)),
            mv_product_id = to_double p', mv_type = MvSale, mv_quantity_change = - to_double n',
            mv_previous_quantity = to_double (inv_quantity row'), mv_new_quantity = ?nq,
            mv_reason = ''Sale #'' @ string_of_int sid, mv_user_id = uid\<rparr>])"
    from a(1) hs(1) have "p' = p" by simp
    with a hs(12) ans show ?thesis
      by (intro exI [of _ sid] exI [of _ low] exI [of _ sl]) simp
  qed
qed

theorem record_sale_rollback_witness:
  "record_sale (\<lambda>x. x) (\<lambda>st. st = UpdateInventory) shop (sell 3 (1295 / 100)) 7
     = (Error500 ''Failed to update inventory'', shop)
   \<and> (\<exists>sl. fst (record_sale (\<lambda>x. x) (\<lambda>st. st = InsertMovement) shop (sell 3 (1295 / 100)) 7)
             = SaleCreated (to_double (sale_id sl)) 2 True
        \<and> sales (snd (record_sale (\<lambda>x. x) (\<lambda>st. st = InsertMovement) shop
              (sell 3 (1295 / 100)) 7)) = [sl])
   \<and> map inv_quantity (inventory (snd (record_sale (\<lambda>x. x) (\<lambda>st. st = InsertMovement) shop
        (sell 3 (1295 / 100)) 7))) = [2]
   \<and> stock_movements (snd (record_sale (\<lambda>x. x) (\<lambda>st. st = InsertMovement) shop
        (sell 3 (1295 / 100)) 7)) = []"
proof -
  let ?row = "\<lparr>inv_product_id = 1, inv_quantity = 5, inv_reorder_level = 15,
           inv_max_stock_level = Some 100, inv_location = Some ''Main Store''\<rparr>"
  let ?r1 = "record_sale (\<lambda>x. x) (\<lambda>st. st = UpdateInventory) shop (sell 3 (1295 / 100)) 7"
  let ?r2 = "record_sale (\<lambda>x. x) (\<lambda>st. st = InsertMovement) shop (sell 3 (1295 / 100)) 7"
  have "snd ?r1 = shop"
    by (rule record_sale_rollback [of "\<lambda>st. st = UpdateInventory" "\<lambda>x. x" shop
          "sell 3 (1295 / 100)" 7, THEN conjunct1, THEN mp]) simp
  moreover have "fst ?r1 = Error500 ''Failed to update inventory''"
    by (simp add: record_sale_def sell_def shop_row insert_sale_def
        update_inventory_quantity_def to_double_small Let_def)
  ultimately have e1: "?r1 = (Error500 ''Failed to update inventory'', shop)"
    by (metis prod.collapse)
  have pre: "rq_product_id (sell 3 (1295 / 100)) = Some 1
       \<and> rq_quantity_sold (sell 3 (1295 / 100)) = Some 3
       \<and> rq_unit_price (sell 3 (1295 / 100)) = Some (1295 / 100)
       \<and> to_double 1 \<noteq> 0 \<and> 0 < to_double 3 \<and> (1295 / 100 :: rat) \<noteq> 0
       \<and> select_inventory shop (to_double 1) = Some ?row
       \<and> to_double 3 \<le> to_double (inv_quantity ?row)
       \<and> \<not> (\<lambda>st. st = InsertMovement) SelectInventory
       \<and> \<not> (\<lambda>st. st = InsertMovement) InsertSale
       \<and> \<not> (\<lambda>st. st = InsertMovement) UpdateInventory
       \<and> (\<lambda>st. st = InsertMovement) InsertMovement"
    by (simp add: sell_fields shop_row to_double_small)
  from record_sale_rollback [of "\<lambda>st. st = InsertMovement" "\<lambda>x. x" shop "sell 3 (1295 / 100)" 7
      1 3 "1295 / 100" ?row, THEN conjunct2, THEN mp, OF pre]
  obtain sid low sl where r:
    "fst ?r2 = SaleCreated sid (to_double (to_double (inv_quantity ?row) - to_double 3)) low"
    "sales (snd ?r2) = sales shop @ [sl]"
    "to_double (sale_id sl) = sid"
    "inventory (snd ?r2) =
       map (\<lambda>r. if inv_product_id r = to_double 1
                 then r\<lparr>inv_quantity := to_double (to_double (inv_quantity ?row) - to_double 3)\<rparr>
                 else r) (inventory shop)"
    "stock_movements (snd ?r2) = stock_movements shop"
    by blast
  have low: "fst ?r2 = SaleCreated sid 2 True"
    using r(1)
    by (simp add: record_sale_def sell_def shop_row insert_sale_def
        update_inventory_quantity_def to_double_small Let_def)
  have "sales (snd ?r2) = [sl]"
    using r(2) by (simp add: shop_tables)
  moreover have "map inv_quantity (inventory (snd ?r2)) = [2]"
    using r(4) by (simp add: to_double_small shop_tables)
  moreover have "stock_movements (snd ?r2) = []"
    using r(5) by (simp add: shop_tables)
  ultimately show ?thesis
    using e1 low r(3) by auto
qed

text \<open>
  C1 as stated fails when the StockMovement INSERT is the step that fails: the sale of 3
  out of 5 is answered 201, the Sale row and the quantity 2 are committed, and the
  movement table stays empty.
\<close>

theorem record_sale_movement_failure_commits:
  "fst (record_sale (\<lambda>x. x) (\<lambda>st. st = InsertMovement) shop (sell 3 (1295 / 100)) 7)
     = SaleCreated 1 2 True
   \<and> map sale_id (sales (snd (record_sale (\<lambda>x. x) (\<lambda>st. st = InsertMovement) shop
        (sell 3 (1295 / 100)) 7))) = [1]
   \<and> map inv_quantity (inventory (snd (record_sale (\<lambda>x. x) (\<lambda>st. st = InsertMovement) shop
        (sell 3 (1295 / 100)) 7))) = [2]
   \<and> stock_movements (snd (record_sale (\<lambda>x. x) (\<lambda>st. st = InsertMovement) shop
        (sell 3 (1295 / 100)) 7)) = []
   \<and> map inv_quantity (inventory shop) = [5] \<and> sales shop = []"
  by (simp add: record_sale_def sell_def shop_def select_inventory_def insert_sale_def
      update_inventory_quantity_def insert_stock_movement_def fresh_id_def to_double_small Let_def
      createLowStockAlert_def)

section \<open>Negative quantities\<close>

text \<open>
  C2. The update handler binds the quantity of the request body unchecked: an update
  of the product to the quantity -5, with name, category, sell price and sku given, is
  answered 200 and the inventory row holds -5 afterwards.
\<close>

theorem update_product_negative_quantity:
  "fst (update_product no_faults shop 1 (adjust (- 5)) 7) = Ok200 ''Product updated successfully''
   \<and> uq_category (adjust (- 5)) = Some ''Accessories''
   \<and> map inv_quantity (inventory shop) = [5]
   \<and> map inv_quantity (inventory (snd (update_product no_faults shop 1 (adjust (- 5)) 7))) = [- 5]"
  by (simp add: update_product_def update_products_row_def update_inventory_row_def
      insert_stock_movement_def select_inventory_def adjust_fields shop_products shop_tables
      no_faults_def fresh_id_def to_double_small Let_def)

section \<open>Insufficient stock\<close>

text \<open>
  C3, as amended. A sale request that passes the handler's validation (product id,
  quantity and unit price present and non-zero, quantity positive), whose inventory row
  is read and holds less than the quantity asked for (both as the doubles the handler
  compares), is answered with the insufficient-inventory error carrying the available
  and the requested quantity, and the database is left exactly as it was. A request
  that fails the validation, a zero unit price or product id included, is answered with
  the validation error whatever the stock, and the database is left as it was too.
\<close>

theorem record_sale_insufficient_stock:
  "(rq_product_id rq = Some p \<and> rq_quantity_sold rq = Some n \<and> rq_unit_price rq = Some up
      \<and> to_double p \<noteq> 0 \<and> 0 < to_double n \<and> up \<noteq> 0
      \<and> \<not> f SelectInventory \<and> select_inventory s (to_double p) = Some row
      \<and> to_double (inv_quantity row) < to_double n
     \<longrightarrow> record_sale rnd f s rq uid =
           (Insufficient (to_double (inv_quantity row)) (to_double n), s))
   \<and> (rq_product_id rq = None \<or> rq_quantity_sold rq = None \<or> rq_unit_price rq = None
      \<or> rq_product_id rq = Some p \<and> to_double p = 0
      \<or> rq_quantity_sold rq = Some n \<and> to_double n \<le> 0
      \<or> rq_unit_price rq = Some 0
     \<longrightarrow> record_sale rnd f s rq uid =
           (Error400 ''Valid product ID, quantity, and unit price are required'', s))"
  by (auto simp: record_sale_def split: option.splits)

theorem record_sale_insufficient_stock_witness:
  "record_sale (\<lambda>x. x) no_faults shop (sell 10 (1295 / 100)) 7 = (Insufficient 5 10, shop)
   \<and> record_sale (\<lambda>x. x) no_faults shop (sell 10 0) 7 =
       (Error400 ''Valid product ID, quantity, and unit price are required'', shop)"
proof -
  let ?row = "\<lparr>inv_product_id = 1, inv_quantity = 5, inv_reorder_level = 15,
           inv_max_stock_level = Some 100, inv_location = Some ''Main Store''\<rparr>"
  have pre: "rq_product_id (sell 10 (1295 / 100)) = Some 1
      \<and> rq_quantity_sold (sell 10 (1295 / 100)) = Some 10
      \<and> rq_unit_price (sell 10 (1295 / 100)) = Some (1295 / 100)
      \<and> to_double 1 \<noteq> 0 \<and> 0 < to_double 10 \<and> (1295 / 100 :: rat) \<noteq> 0
      \<and> \<not> no_faults SelectInventory \<and> select_inventory shop (to_double 1) = Some ?row
      \<and> to_double (inv_quantity ?row) < to_double 10"
    by (simp add: sell_fields shop_row to_double_small no_faults_def)
  have pre0: "rq_product_id (sell 10 0) = None \<or> rq_quantity_sold (sell 10 0) = None
      \<or> rq_unit_price (sell 10 0) = None
      \<or> rq_product_id (sell 10 0) = Some 1 \<and> to_double 1 = 0
      \<or> rq_quantity_sold (sell 10 0) = Some 10 \<and> to_double 10 \<le> 0
      \<or> rq_unit_price (sell 10 0) = Some 0"
    by (simp add: sell_fields)
  from record_sale_insufficient_stock [of "sell 10 (1295 / 100)" 1 10 "1295 / 100" no_faults shop
      ?row "\<lambda>x. x" 7, THEN conjunct1, THEN mp, OF pre]
    record_sale_insufficient_stock [of "sell 10 0" 1 10 _ no_faults shop _ "\<lambda>x. x" 7,
      THEN conjunct2, THEN mp, OF pre0]
  show ?thesis
    by (simp add: to_double_small)
qed

text \<open>
  C3 as stated fails for a request with unit price 0: with 5 in stock and 10 asked
  for, the answer is the validation error, not the insufficient-inventory error.
\<close>

theorem record_sale_zero_price_rejected:
  "map inv_quantity (inventory shop) = [5]
   \<and> rq_quantity_sold (sell 10 0) = Some 10 \<and> rq_unit_price (sell 10 0) = Some 0
   \<and> record_sale (\<lambda>x. x) no_faults shop (sell 10 0) 7 =
       (Error400 ''Valid product ID, quantity, and unit price are required'', shop)"
  by (simp add: record_sale_def sell_def shop_tables to_double_small)

section \<open>Pairing of quantity changes and stock movements\<close>




section \<open>Duplicate alerts\<close>

text \<open>
  C5. The existence check looks for an active alert of type low_stock only. On a
  sold-out product the helper inserts an out_of_stock alert, which the check of the
  next call does not see: the second call inserts a second active out_of_stock alert
  for the same product.
\<close>

theorem createLowStockAlert_duplicates_out_of_stock:
  "map (\<lambda>a. (alert_product_id a, alert_kind a, alert_status a))
     (alerts (createLowStockAlert no_faults sold_out 1 0 15))
     = [(1, OutOfStock, Active)]
   \<and> map (\<lambda>a. (alert_product_id a, alert_kind a, alert_status a))
     (alerts (createLowStockAlert no_faults (createLowStockAlert no_faults sold_out 1 0 15) 1 0 15))
     = [(1, OutOfStock, Active), (1, OutOfStock, Active)]"
  by (simp add: createLowStockAlert_def sold_out_def shop_def no_faults_def fresh_id_def Let_def)

section \<open>Resolving an alert\<close>

text \<open>
  C6, as amended. When the UPDATE does not fail: for an alert id that exists, whatever
  the alert's current status, the handler answers 200, every alert with that id is set
  to resolved with the resolver and the timestamp of this call, and nothing else
  changes; for an alert id that does not exist it answers 404 and changes nothing.
\<close>

theorem resolve_alert_by_id:
  "(\<not> f UpdateAlert \<and> aid \<in> alert_id ` set (alerts s) \<longrightarrow>
      fst (resolve_alert f s aid username now) = Ok200 ''Alert resolved successfully''
      \<and> map alert_id (alerts (snd (resolve_alert f s aid username now))) = map alert_id (alerts s)
      \<and> (\<forall>a \<in> set (alerts (snd (resolve_alert f s aid username now))).
            alert_id a = aid \<longrightarrow>
              alert_status a = Resolved \<and> alert_resolved_by a = Some username
              \<and> alert_resolved_at a = Some now)
      \<and> filter (\<lambda>a. alert_id a \<noteq> aid) (alerts (snd (resolve_alert f s aid username now)))
          = filter (\<lambda>a. alert_id a \<noteq> aid) (alerts s)
      \<and> (snd (resolve_alert f s aid username now))\<lparr>alerts := alerts s\<rparr> = s)
   \<and> (\<not> f UpdateAlert \<and> aid \<notin> alert_id ` set (alerts s) \<longrightarrow>
      resolve_alert f s aid username now = (Error404 ''Alert not found'', s))"
proof (intro conjI impI)
  assume a: "\<not> f UpdateAlert \<and> aid \<in> alert_id ` set (alerts s)"
  let ?h = "\<lambda>a. if alert_id a = aid
                 then a\<lparr>alert_status := Resolved, alert_resolved_at := Some now,
                        alert_resolved_by := Some username\<rparr>
                 else a"
  have r: "resolve_alert f s aid username now =
      (Ok200 ''Alert resolved successfully'', s\<lparr>alerts := map ?h (alerts s)\<rparr>)"
    using a resolve_alert_found by blast
  show "fst (resolve_alert f s aid username now) = Ok200 ''Alert resolved successfully''"
    by (simp add: r)
  show "map alert_id (alerts (snd (resolve_alert f s aid username now))) = map alert_id (alerts s)"
    by (simp add: r)
  show "\<forall>a \<in> set (alerts (snd (resolve_alert f s aid username now))).
            alert_id a = aid \<longrightarrow>
              alert_status a = Resolved \<and> alert_resolved_by a = Some username
              \<and> alert_resolved_at a = Some now"
  proof (intro ballI impI)
    fix b
    assume b: "b \<in> set (alerts (snd (resolve_alert f s aid username now)))"
      and i: "alert_id b = aid"
    from b have "b \<in> set (map ?h (alerts s))"
      by (simp add: r)
    then show "alert_status b = Resolved \<and> alert_resolved_by b = Some username
        \<and> alert_resolved_at b = Some now"
      using i by (rule resolved_rows)
  qed
  show "filter (\<lambda>a. alert_id a \<noteq> aid) (alerts (snd (resolve_alert f s aid username now)))
          = filter (\<lambda>a. alert_id a \<noteq> aid) (alerts s)"
    by (simp add: r resolve_others_kept)
  show "(snd (resolve_alert f s aid username now))\<lparr>alerts := alerts s\<rparr> = s"
    by (simp add: r)
next
  assume "\<not> f UpdateAlert \<and> aid \<notin> alert_id ` set (alerts s)"
  then show "resolve_alert f s aid username now = (Error404 ''Alert not found'', s)"
    using resolve_alert_missing by blast
qed

theorem resolve_alert_by_id_witness:
  "fst (resolve_alert no_faults (alerted Active) 1 ''bob'' 20) = Ok200 ''Alert resolved successfully''
   \<and> map (\<lambda>a. (alert_id a, alert_status a, alert_resolved_by a, alert_resolved_at a))
        (alerts (snd (resolve_alert no_faults (alerted Active) 1 ''bob'' 20)))
      = [(1, Resolved, Some ''bob'', Some 20)]
   \<and> resolve_alert no_faults (alerted Active) 2 ''bob'' 20
      = (Error404 ''Alert not found'', alerted Active)"
proof -
  have pre: "\<not> no_faults UpdateAlert" "(1::int) \<in> alert_id ` set (alerts (alerted Active))"
    "(2::int) \<notin> alert_id ` set (alerts (alerted Active))"
    by (simp_all add: no_faults_def alerted_def)
  from resolve_alert_by_id [of no_faults 1 "alerted Active" "''bob''" 20] pre(1,2)
  have one: "fst (resolve_alert no_faults (alerted Active) 1 ''bob'' 20)
        = Ok200 ''Alert resolved successfully''"
    "map alert_id (alerts (snd (resolve_alert no_faults (alerted Active) 1 ''bob'' 20))) = [1]"
    "\<forall>a \<in> set (alerts (snd (resolve_alert no_faults (alerted Active) 1 ''bob'' 20))).
        alert_id a = 1 \<longrightarrow> alert_status a = Resolved \<and> alert_resolved_by a = Some ''bob''
          \<and> alert_resolved_at a = Some 20"
    by (simp_all add: alerted_def)
  from one(2) obtain a where a: "alerts (snd (resolve_alert no_faults (alerted Active) 1 ''bob'' 20)) = [a]"
      "alert_id a = 1"
    by auto
  with one(3) have "alert_status a = Resolved \<and> alert_resolved_by a = Some ''bob''
          \<and> alert_resolved_at a = Some 20"
    by simp
  with a one(1) resolve_alert_by_id [of no_faults 2 "alerted Active" "''bob''" 20] pre(1,3)
  show ?thesis by simp
qed

text \<open>
  C6 as stated fails for an alert that is already resolved: resolving it again is
  answered 200 and replaces the resolver and the timestamp.
\<close>

theorem resolve_alert_resolves_again:
  "map (\<lambda>a. (alert_id a, alert_status a, alert_resolved_by a, alert_resolved_at a))
      (alerts (alerted Resolved)) = [(1, Resolved, Some ''alice'', Some 10)]
   \<and> fst (resolve_alert no_faults (alerted Resolved) 1 ''bob'' 20)
      = Ok200 ''Alert resolved successfully''
   \<and> map (\<lambda>a. (alert_id a, alert_status a, alert_resolved_by a, alert_resolved_at a))
        (alerts (snd (resolve_alert no_faults (alerted Resolved) 1 ''bob'' 20)))
      = [(1, Resolved, Some ''bob'', Some 20)]"
  by (simp add: resolve_alert_def alerted_def no_faults_def)

section \<open>The result of a sale\<close>




section \<open>The alert that is raised\<close>

text \<open>
  C8, as amended. Whenever the helper inserts an alert, it is one active alert for the
  product; with current quantity 0 its type is out_of_stock, its priority critical and
  its message the product name followed by "is out of stock"; otherwise its type is
  low_stock, its priority high and its message contains the product name, the current
  quantity and the reorder level.
\<close>

theorem createLowStockAlert_alert:
  assumes "alerts (createLowStockAlert f s pid q r) \<noteq> alerts s"
  shows "\<exists>p a. find (\<lambda>p. prod_id p = pid) (products s) = Some p
     \<and> alerts (createLowStockAlert f s pid q r) = alerts s @ [a]
     \<and> alert_product_id a = pid \<and> alert_status a = Active
     \<and> alert_kind a = (if q = 0 then OutOfStock else LowStock)
     \<and> alert_priority a = (if q = 0 then Critical else High)
     \<and> alert_message a =
         (if q = 0 then prod_name p @ '' is out of stock''
          else prod_name p @ '' is running low ('' @ string_of_int q
               @ '' remaining, reorder at '' @ string_of_int r @ '')'')
     \<and> sublist (prod_name p) (alert_message a)
     \<and> (q \<noteq> 0 \<longrightarrow> sublist (string_of_int q) (alert_message a)
                   \<and> sublist (string_of_int r) (alert_message a))"
proof -
  from assms obtain p where p: "find (\<lambda>p. prod_id p = pid) (products s) = Some p"
    by (auto simp: createLowStockAlert_def Let_def split: if_splits option.splits)
  let ?a = "\<lparr>alert_id = fresh_id (seq_alerts s) (map alert_id (alerts s)),
             alert_product_id = pid, alert_kind = (if q = 0 then OutOfStock else LowStock),
             alert_message = low_stock_message (prod_name p) q r, alert_status = Active,
             alert_priority = (if q = 0 then Critical else High), alert_resolved_at = None,
             alert_resolved_by = None\<rparr>"
  from assms p have "alerts (createLowStockAlert f s pid q r) = alerts s @ [?a]"
    by (auto simp: createLowStockAlert_def Let_def split: if_splits option.splits)
  moreover have "alert_message ?a =
         (if q = 0 then prod_name p @ '' is out of stock''
          else prod_name p @ '' is running low ('' @ string_of_int q
               @ '' remaining, reorder at '' @ string_of_int r @ '')'')"
    by (simp add: low_stock_message_def)
  moreover have "sublist (prod_name p) (alert_message ?a)"
    "q \<noteq> 0 \<longrightarrow> sublist (string_of_int q) (alert_message ?a)
                   \<and> sublist (string_of_int r) (alert_message ?a)"
    using low_stock_message_embeds [where name = "prod_name p" and q = q and r = r] by simp_all
  ultimately show ?thesis
    using p by (intro exI [of _ p] exI [of _ ?a]) simp
qed

theorem createLowStockAlert_alert_witness:
  "\<exists>a. alerts (createLowStockAlert no_faults shop 1 3 15) = [a]
     \<and> alert_kind a = LowStock \<and> alert_priority a = High
     \<and> alert_message a = ''Mug is running low (3 remaining, reorder at 15)''
     \<and> sublist ''Mug'' (alert_message a) \<and> sublist ''3'' (alert_message a)
     \<and> sublist ''15'' (alert_message a)"
proof -
  have ne: "alerts (createLowStockAlert no_faults shop 1 3 15) \<noteq> alerts shop"
    by (simp add: createLowStockAlert_def shop_def no_faults_def Let_def)
  have p: "find (\<lambda>p. prod_id p = 1) (products shop)
      = Some \<lparr>prod_id = 1, prod_name = ''Mug'', prod_category = ''Accessories'',
               prod_sell_price = 1295 / 100, prod_sku = Some ''HRV-MUG-001''\<rparr>"
    by (simp add: shop_def)
  from createLowStockAlert_alert [OF ne] p string_of_int_examples
  show ?thesis by (auto simp: shop_def)
qed

text \<open>
  C8 as stated fails for the out-of-stock alert: its message contains neither the
  current quantity 0 nor the reorder level 15.
\<close>

theorem out_of_stock_message_omits_numbers:
  "map (\<lambda>a. (alert_kind a, alert_priority a, alert_message a))
      (alerts (createLowStockAlert no_faults sold_out 1 0 15))
     = [(OutOfStock, Critical, ''Mug is out of stock'')]
   \<and> string_of_int 0 = ''0'' \<and> string_of_int 15 = ''15''
   \<and> \<not> sublist ''0'' ''Mug is out of stock''
   \<and> \<not> sublist ''15'' ''Mug is out of stock''"
  by (simp add: createLowStockAlert_def sold_out_def shop_def no_faults_def fresh_id_def Let_def
      low_stock_message_def string_of_int_examples sublist_Cons_right)

section \<open>The price of a sale\<close>

text \<open>
  C10. The sale handler never reads the stored sell price: with any other prices in the
  products table it gives the same response and writes the same rows, so the unit price
  and the total amount of the Sale row come from the request alone. Consequently a
  request for 2 units at the unit price -5, against a product stored at 12.95, is
  answered 201 and commits a Sale row with total amount -10 (for every rounding \<open>rnd\<close>
  that leaves -10 as it is, as rounding to a double does).
\<close>

theorem record_sale_ignores_sell_price:
  "record_sale rnd f (reprice g s) rq uid =
     (fst (record_sale rnd f s rq uid), reprice g (snd (record_sale rnd f s rq uid)))
   \<and> (rnd (- 10) = - 10 \<longrightarrow>
        fst (record_sale rnd no_faults shop (sell 2 (- 5)) 7) = SaleCreated 1 3 True
        \<and> sales (snd (record_sale rnd no_faults shop (sell 2 (- 5)) 7)) =
            [\<lparr>sale_id = 1, sale_product_id = 1, sale_quantity_sold = 2, sale_unit_price = - 5,
              sale_total_amount = - 10, sale_cashier_name = Some ''Sam'',
              sale_payment_method = ''cash''\<rparr>])"
proof
  show "record_sale rnd f (reprice g s) rq uid =
     (fst (record_sale rnd f s rq uid), reprice g (snd (record_sale rnd f s rq uid)))"
    by (auto simp: record_sale_def Let_def reprice_select_inventory reprice_insert_sale
        reprice_update_inventory_quantity reprice_insert_stock_movement
        reprice_createLowStockAlert
        split: option.splits prod.splits)
next
  have t: "toFixed2 (- 10) = - 10"
    by (simp add: toFixed2_def floor_eq_iff)
  show "rnd (- 10) = - 10 \<longrightarrow>
        fst (record_sale rnd no_faults shop (sell 2 (- 5)) 7) = SaleCreated 1 3 True
        \<and> sales (snd (record_sale rnd no_faults shop (sell 2 (- 5)) 7)) =
            [\<lparr>sale_id = 1, sale_product_id = 1, sale_quantity_sold = 2, sale_unit_price = - 5,
              sale_total_amount = - 10, sale_cashier_name = Some ''Sam'',
              sale_payment_method = ''cash''\<rparr>]"
    by (simp add: record_sale_def sell_def shop_def select_inventory_def insert_sale_def
        update_inventory_quantity_def insert_stock_movement_def fresh_id_def no_faults_def
        Let_def createLowStockAlert_def total_amount_def t to_double_small)
qed

theorem record_sale_ignores_sell_price_witness:
  "record_sale (\<lambda>x. x) no_faults (reprice (\<lambda>p. 1) shop) (sell 2 (- 5)) 7 =
     (SaleCreated 1 3 True,
      reprice (\<lambda>p. 1) (snd (record_sale (\<lambda>x. x) no_faults shop (sell 2 (- 5)) 7)))
   \<and> sales (snd (record_sale (\<lambda>x. x) no_faults shop (sell 2 (- 5)) 7)) =
       [\<lparr>sale_id = 1, sale_product_id = 1, sale_quantity_sold = 2, sale_unit_price = - 5,
         sale_total_amount = - 10, sale_cashier_name = Some ''Sam'',
         sale_payment_method = ''cash''\<rparr>]
   \<and> map prod_sell_price (products shop) = [1295 / 100]"
  using record_sale_ignores_sell_price [of "\<lambda>x. x" no_faults "\<lambda>p. 1" shop "sell 2 (- 5)" 7]
  by (simp add: shop_def)

end
